theory Spec2Isabelle
  imports Main
begin

section \<open>The registration screen of the initial-admin setup flow\<close>

text \<open>
  The component \<^verbatim>\<open>RegisterScreen\<close> keeps five pieces of React state, loads the setup
  status once when it mounts, and posts the form to the registration endpoint.
  The embedding follows the source function by function:
  \<^item> the TypeScript type \<^verbatim>\<open>SetupStatus\<close> and the \<^verbatim>\<open>useState\<close> cells are records; an
    optional field (\<^verbatim>\<open>dbConfigured?: boolean\<close>) is an \<open>option\<close>, \<open>None\<close> when absent;
  \<^item> a value that JavaScript can throw is a \<open>js_exn\<close>, and an awaited promise is a sum,
    \<open>Inl e\<close> when it rejects with \<open>e\<close>;
  \<^item> every call of a state setter, of the router, of \<^verbatim>\<open>toast\<close> and of \<^verbatim>\<open>fetch\<close> is an
    \<open>action\<close>; a handler returns the list of the actions it performs, in order, with
    the way its body completes (normally, by \<^verbatim>\<open>return\<close>, or by a throw);
  \<^item> a string is the list of its code units, so \<open>length\<close> is \<^verbatim>\<open>.length\<close>.
\<close>

subsection \<open>Data\<close>

text \<open>
  Lines 14-22. A body of the status endpoint that is a JSON object is read at this
  declared type: the loader and the view only test its fields for truthiness. The one
  other body the model has is the JSON value \<^verbatim>\<open>null\<close>, which the state cell of line 26
  (\<^verbatim>\<open>SetupStatus | null\<close>) can hold as well: it is \<open>None\<close>.
\<close>

record SetupStatus =
  isInitialized :: bool
  tablesCreated :: bool
  adminExists :: bool
  setupStep :: string
  dbConfigured :: "bool option"
  connectionValid :: "bool option"
  error_field :: "string option"

text \<open>Lines 30-34: the form state.\<close>

record FormData =
  fullName :: string
  email :: string
  password :: string

text \<open>Lines 102-107: the JSON object sent to the registration endpoint.\<close>

record RegisterRequest =
  req_email :: string
  req_password :: string
  req_fullName :: string
  req_role :: string

text \<open>
  The body of a failed registration, read through \<^verbatim>\<open>data?.error\<close> (line 117): an object
  that may carry an \<^verbatim>\<open>error\<close> string. The empty object \<^verbatim>\<open>{}\<close> has no such field.
\<close>

record RegisterReply =
  reply_error :: "string option"

definition empty_reply :: RegisterReply where
  "empty_reply = \<lparr>reply_error = None\<rparr>"

text \<open>
  A thrown value: an instance of \<^verbatim>\<open>Error\<close> with its message, or anything else
  (\<^verbatim>\<open>e instanceof Error\<close> is false).
\<close>

datatype js_exn = ErrorObject string | OtherThrown

text \<open>
  What \<^verbatim>\<open>fetch\<close> resolves to: the \<^verbatim>\<open>ok\<close> flag (true exactly for an HTTP status 200-299)
  and the outcome of \<^verbatim>\<open>response.json()\<close>, \<open>Inl e\<close> when parsing rejects.
\<close>

datatype 'a response = Response (ok: bool) (json: "js_exn + 'a")

text \<open>Lines 26-34: the component state. \<open>error\<close> is the \<^verbatim>\<open>error\<close> cell of line 29.\<close>

record state =
  status :: "SetupStatus option"
  loadingStatus :: bool
  submitting :: bool
  error :: "string option"
  formData :: FormData

definition initial_state :: state where
  "initial_state =
     \<lparr>status = None, loadingStatus = True, submitting = False, error = None,
      formData = \<lparr>fullName = [], email = [], password = []\<rparr>\<rparr>"

subsection \<open>Truthiness\<close>

text \<open>\<^verbatim>\<open>!!x\<close> for an optional boolean: \<^verbatim>\<open>undefined\<close> and \<^verbatim>\<open>false\<close> are falsy.\<close>

fun truthy :: "bool option \<Rightarrow> bool" where
  "truthy None = False"
| "truthy (Some b) = b"

text \<open>\<^verbatim>\<open>x || d\<close> for an optional string: \<^verbatim>\<open>undefined\<close> and the empty string are falsy.\<close>

fun or_default :: "string option \<Rightarrow> string \<Rightarrow> string" where
  "or_default None d = d"
| "or_default (Some m) d = (if m = [] then d else m)"

text \<open>\<^verbatim>\<open>e instanceof Error ? e.message : d\<close> (lines 70 and 121).\<close>

fun message_of :: "js_exn \<Rightarrow> string \<Rightarrow> string" where
  "message_of (ErrorObject m) d = m"
| "message_of OtherThrown d = d"

subsection \<open>The derived permission\<close>

text \<open>Lines 36-39.\<close>

definition canRegisterInitialAdmin :: "SetupStatus option \<Rightarrow> bool" where
  "canRegisterInitialAdmin st =
     (case st of
        None \<Rightarrow> False
      | Some s \<Rightarrow>
          truthy (dbConfigured s) \<and> truthy (connectionValid s) \<and> tablesCreated s \<and> \<not> adminExists s)"

subsection \<open>Actions and control flow\<close>

datatype action =
    SetStatus "SetupStatus option"
  | SetLoadingStatus bool
  | SetSubmitting bool
  | SetError "string option"
  | FetchGet string string
  | FetchPost string RegisterRequest
  | RouterReplace string
  | RouterPush string
  | ToastError string
  | ToastSuccess string
  | PreventDefault

text \<open>
  \<open>FetchGet url cache\<close> is a GET with the given cache mode; \<open>FetchPost url body\<close> is a
  POST of \<open>body\<close> as JSON. A setter replaces its cell; every other action leaves the
  component state alone.
\<close>

fun apply_action :: "action \<Rightarrow> state \<Rightarrow> state" where
  "apply_action (SetStatus d) s = s\<lparr>status := d\<rparr>"
| "apply_action (SetLoadingStatus b) s = s\<lparr>loadingStatus := b\<rparr>"
| "apply_action (SetSubmitting b) s = s\<lparr>submitting := b\<rparr>"
| "apply_action (SetError m) s = s\<lparr>error := m\<rparr>"
| "apply_action _ s = s"

definition run :: "action list \<Rightarrow> state \<Rightarrow> state" where
  "run acts s = fold apply_action acts s"

fun is_setter :: "action \<Rightarrow> bool" where
  "is_setter (SetStatus _) = True"
| "is_setter (SetLoadingStatus _) = True"
| "is_setter (SetSubmitting _) = True"
| "is_setter (SetError _) = True"
| "is_setter _ = False"

fun is_redirect :: "action \<Rightarrow> bool" where
  "is_redirect (RouterReplace _) = True"
| "is_redirect (RouterPush _) = True"
| "is_redirect _ = False"

fun is_fetch :: "action \<Rightarrow> bool" where
  "is_fetch (FetchGet _ _) = True"
| "is_fetch (FetchPost _ _) = True"
| "is_fetch _ = False"


text \<open>How a block of statements ends.\<close>

datatype completion = Normal | Return | Throw js_exn

type_synonym block = "action list \<times> completion"

text \<open>
  \<^verbatim>\<open>try { body } catch (e) { handler } finally { fin }\<close>: the handler runs when the
  body throws, the finaliser runs in every case, also after a \<^verbatim>\<open>return\<close>; the statement
  completes as the body or the handler did unless the finaliser itself ends abruptly.
\<close>

definition try_catch_finally :: "block \<Rightarrow> (js_exn \<Rightarrow> block) \<Rightarrow> block \<Rightarrow> block" where
  "try_catch_finally body handler fin =
     (let caught = (case snd body of Throw e \<Rightarrow> handler e | c \<Rightarrow> ([], c))
      in (fst body @ fst caught @ fst fin,
          (case snd fin of Normal \<Rightarrow> snd caught | c \<Rightarrow> c)))"

subsection \<open>The status loader\<close>

text \<open>
  Lines 44-74. \<open>cancelled\<close> is the value of the closure flag of line 42 when the two
  awaits of lines 49-50 have settled: every read of the flag (lines 52, 69 and 72) comes
  after them, in one turn of the event loop. \<open>fetched\<close> is what the awaits produce.
  The three actions before the first await are \<open>loadStatus_sync\<close>.

  When the body is \<^verbatim>\<open>null\<close>, line 53 stores it and the read of \<^verbatim>\<open>data.dbConfigured\<close> on
  line 55 throws a \<^verbatim>\<open>TypeError\<close>, which the \<^verbatim>\<open>catch\<close> of line 68 receives. The text of
  its message is the engine's; \<open>null_read_error\<close> carries the one of V8.
\<close>

definition null_read_error :: js_exn where
  "null_read_error = ErrorObject ''Cannot read properties of null (reading 'dbConfigured')''"

definition loadStatus_sync :: "action list" where
  "loadStatus_sync = [SetLoadingStatus True, SetError None, FetchGet ''/api/setup/status'' ''no-store'']"

definition loadStatus_try :: "bool \<Rightarrow> js_exn + SetupStatus option response \<Rightarrow> block" where
  "loadStatus_try cancelled fetched =
     (case fetched of
        Inl e \<Rightarrow> (loadStatus_sync, Throw e)
      | Inr response \<Rightarrow>
          (case json response of
             Inl e \<Rightarrow> (loadStatus_sync, Throw e)
           | Inr body \<Rightarrow>
               if cancelled then (loadStatus_sync, Return)
               else
                 (case body of
                    None \<Rightarrow> (loadStatus_sync @ [SetStatus None], Throw null_read_error)
                  | Some data \<Rightarrow>
                      if \<not> truthy (dbConfigured data) \<or> \<not> truthy (connectionValid data)
                        then (loadStatus_sync @ [SetStatus (Some data)], Return)
                      else if \<not> tablesCreated data
                        then (loadStatus_sync @ [SetStatus (Some data), RouterReplace ''/setup''],
                              Return)
                      else if adminExists data
                        then (loadStatus_sync @ [SetStatus (Some data), RouterReplace ''/login''],
                              Return)
                      else (loadStatus_sync @ [SetStatus (Some data)], Normal))))"

definition loadStatus_catch :: "bool \<Rightarrow> js_exn \<Rightarrow> block" where
  "loadStatus_catch cancelled e =
     (if cancelled then ([], Return)
      else ([SetError (Some (message_of e ''Failed to check setup status''))], Normal))"

definition loadStatus_finally :: "bool \<Rightarrow> block" where
  "loadStatus_finally cancelled =
     (if \<not> cancelled then ([SetLoadingStatus False], Normal) else ([], Normal))"

definition loadStatus :: "bool \<Rightarrow> js_exn + SetupStatus option response \<Rightarrow> block" where
  "loadStatus cancelled fetched =
     try_catch_finally (loadStatus_try cancelled fetched)
       (loadStatus_catch cancelled) (loadStatus_finally cancelled)"

text \<open>The actions of the loader after its awaits have settled.\<close>

definition loadStatus_after :: "bool \<Rightarrow> js_exn + SetupStatus option response \<Rightarrow> action list" where
  "loadStatus_after cancelled fetched =
     drop (length loadStatus_sync) (fst (loadStatus cancelled fetched))"

subsection \<open>The submission handler\<close>

text \<open>
  Lines 82-127. The handler closes over the state of the render that created it: \<open>s\<close>.
  \<open>fetched\<close> is what the await of line 99 produces, consulted only when the request
  is made.
\<close>

definition register_request :: "FormData \<Rightarrow> action" where
  "register_request fd =
     FetchPost ''/api/auth/register''
       \<lparr>req_email = email fd, req_password = password fd, req_fullName = fullName fd,
        req_role = ''admin''\<rparr>"

definition onSubmit_try :: "FormData \<Rightarrow> js_exn + RegisterReply response \<Rightarrow> block" where
  "onSubmit_try fd fetched =
     (case fetched of
        Inl e \<Rightarrow> ([register_request fd], Throw e)
      | Inr response \<Rightarrow>
          if ok response
          then ([register_request fd, ToastSuccess ''Admin account created'',
                 RouterPush ''/admin''], Return)
          else
            (let data = (case json response of Inl e \<Rightarrow> empty_reply | Inr d \<Rightarrow> d);
                 message = or_default (reply_error data) ''Failed to create account''
             in ([register_request fd, SetError (Some message), ToastError message], Normal)))"

definition onSubmit_catch :: "js_exn \<Rightarrow> block" where
  "onSubmit_catch e =
     (let message = message_of e ''Registration failed''
      in ([SetError (Some message), ToastError message], Normal))"

definition onSubmit_finally :: block where
  "onSubmit_finally = ([SetSubmitting False], Normal)"

definition onSubmit :: "state \<Rightarrow> js_exn + RegisterReply response \<Rightarrow> block" where
  "onSubmit s fetched =
     (if \<not> canRegisterInitialAdmin (status s)
        then ([PreventDefault, ToastError ''Registration is not available right now''], Return)
      else if length (password (formData s)) < 8
        then ([PreventDefault, ToastError ''Password must be at least 8 characters''], Return)
      else
        (let rest = try_catch_finally (onSubmit_try (formData s) fetched)
                      onSubmit_catch onSubmit_finally
         in ([PreventDefault, SetSubmitting True, SetError None] @ fst rest, snd rest)))"

subsection \<open>What is rendered\<close>

text \<open>
  Lines 129-236, reduced to what depends on the state: the spinner, the
  "Cannot Register Yet" card with its message, or the form with its inline alert
  (\<^verbatim>\<open>error && ...\<close>: shown for a non-empty string), the \<^verbatim>\<open>disabled\<close> attribute shared
  by the three inputs and the submit button, and the label of that button.
\<close>

datatype view =
    CheckingStatus
  | CannotRegisterYet string
  | CreateAdminForm "string option" FormData bool string

definition inline_alert :: "string option \<Rightarrow> string option" where
  "inline_alert e = (case e of None \<Rightarrow> None | Some m \<Rightarrow> if m = [] then None else Some m)"

definition form_view :: "state \<Rightarrow> view" where
  "form_view s =
     CreateAdminForm (inline_alert (error s)) (formData s)
       (submitting s \<or> \<not> canRegisterInitialAdmin (status s))
       (if submitting s then ''Creating...'' else ''Create Admin'')"

definition render :: "state \<Rightarrow> view" where
  "render s =
     (if loadingStatus s then CheckingStatus
      else case status s of
        None \<Rightarrow> form_view s
      | Some st \<Rightarrow>
          if \<not> truthy (dbConfigured st) \<or> \<not> truthy (connectionValid st)
          then CannotRegisterYet
                 (or_default (error_field st)
                    (if \<not> truthy (dbConfigured st) then ''DATABASE_URL is not configured''
                     else ''Unable to connect to database''))
          else form_view s)"

text \<open>The alert a view shows, and whether it offers an enabled input or submit button.\<close>

fun shown_alert :: "view \<Rightarrow> string option" where
  "shown_alert (CreateAdminForm a _ _ _) = a"
| "shown_alert _ = None"

fun is_cannot_register :: "view \<Rightarrow> bool" where
  "is_cannot_register (CannotRegisterYet _) = True"
| "is_cannot_register _ = False"

fun is_form :: "view \<Rightarrow> bool" where
  "is_form (CreateAdminForm _ _ _ _) = True"
| "is_form _ = False"

fun form_enabled :: "view \<Rightarrow> bool" where
  "form_enabled (CreateAdminForm _ _ d _) = (\<not> d)"
| "form_enabled _ = False"

subsection \<open>Observing a handler\<close>

text \<open>The exception a failed await carries, if any: from \<^verbatim>\<open>fetch\<close> or from \<^verbatim>\<open>json()\<close>.\<close>

definition thrown :: "js_exn + 'a response \<Rightarrow> js_exn option" where
  "thrown fetched =
     (case fetched of
        Inl e \<Rightarrow> Some e
      | Inr response \<Rightarrow> (case json response of Inl e \<Rightarrow> Some e | Inr _ \<Rightarrow> None))"

text \<open>Whether the awaits delivered the body \<^verbatim>\<open>null\<close>.\<close>

definition null_body :: "js_exn + 'a option response \<Rightarrow> bool" where
  "null_body fetched =
     (case fetched of
        Inl e \<Rightarrow> False
      | Inr response \<Rightarrow> (case json response of Inl e \<Rightarrow> False | Inr body \<Rightarrow> body = None))"

text \<open>
  The component state once a handler's actions have been applied. A submit handler
  closes over the state it is applied to: no other update comes between.
\<close>

definition after_load :: "bool \<Rightarrow> js_exn + SetupStatus option response \<Rightarrow> state \<Rightarrow> state" where
  "after_load cancelled fetched s = run (fst (loadStatus cancelled fetched)) s"

definition after_submit :: "state \<Rightarrow> js_exn + RegisterReply response \<Rightarrow> state" where
  "after_submit s fetched = run (fst (onSubmit s fetched)) s"

subsection \<open>Concrete inputs\<close>

text \<open>
  A status that permits registration, the state of a mounted screen that has loaded
  it, with a password of eight characters typed in, and the same state with a password
  of seven.
\<close>

definition ready_status :: SetupStatus where
  "ready_status =
     \<lparr>isInitialized = False, tablesCreated = True, adminExists = False,
      setupStep = ''admin'', dbConfigured = Some True, connectionValid = Some True,
      error_field = None\<rparr>"

definition ready_state :: state where
  "ready_state =
     \<lparr>status = Some ready_status, loadingStatus = False, submitting = False, error = None,
      formData = \<lparr>fullName = ''Ada'', email = ''ada@example.org'', password = ''12345678''\<rparr>\<rparr>"

definition short_password_state :: state where
  "short_password_state = ready_state\<lparr>formData := (formData ready_state)\<lparr>password := ''1234567''\<rparr>\<rparr>"

section \<open>Properties\<close>

subsection \<open>Auxiliary facts\<close>

lemmas loader_defs =
  loadStatus_def loadStatus_try_def loadStatus_catch_def loadStatus_finally_def
  loadStatus_sync_def try_catch_finally_def Let_def

lemmas submit_defs =
  onSubmit_def onSubmit_try_def onSubmit_catch_def onSubmit_finally_def
  register_request_def try_catch_finally_def empty_reply_def Let_def

lemmas example_defs =
  ready_state_def ready_status_def short_password_state_def initial_state_def

lemma truthy_iff: "truthy x = (x = Some True)"
  by (cases x) simp_all

lemma canRegister_Some:
  "canRegisterInitialAdmin (Some d) =
     (truthy (dbConfigured d) \<and> truthy (connectionValid d) \<and> tablesCreated d \<and> \<not> adminExists d)"
  by (simp add: canRegisterInitialAdmin_def)

lemma canRegister_status:
  "canRegisterInitialAdmin (status s) \<Longrightarrow>
     \<exists>d. status s = Some d \<and> truthy (dbConfigured d) \<and> truthy (connectionValid d)"
  by (cases "status s") (simp_all add: canRegisterInitialAdmin_def)

lemma ready_state_can_register: "canRegisterInitialAdmin (status ready_state)"
  by (simp add: example_defs canRegisterInitialAdmin_def)

lemma ready_state_password: "8 \<le> length (password (formData ready_state))"
  by (simp add: example_defs)

text \<open>The loader, not cancelled, on a body that parsed and on an await that threw.\<close>

lemma after_load_parsed:
  "after_load False (Inr (Response k (Inr (Some d)))) s =
     s\<lparr>loadingStatus := False, error := None, status := Some d\<rparr>"
  by (simp add: after_load_def loader_defs run_def)

lemma loadStatus_thrown:
  assumes "thrown fetched = Some e"
  shows "loadStatus False fetched =
           (loadStatus_sync
              @ [SetError (Some (message_of e ''Failed to check setup status'')),
                 SetLoadingStatus False], Normal)"
  using assms
  by (auto simp add: thrown_def loader_defs split: sum.splits)

lemma after_load_thrown:
  assumes "thrown fetched = Some e"
  shows "after_load False fetched s =
           s\<lparr>loadingStatus := False,
             error := Some (message_of e ''Failed to check setup status'')\<rparr>"
  by (simp add: after_load_def loadStatus_thrown [OF assms] run_def loadStatus_sync_def)

lemma after_load_cancelled: "after_load True fetched s = s\<lparr>loadingStatus := True, error := None\<rparr>"
  by (simp add: after_load_def loader_defs run_def split: sum.splits)

lemma not_thrown_parsed:
  assumes "thrown fetched = None"
  shows "\<exists>k b. fetched = Inr (Response k (Inr b))"
proof (cases fetched)
  case (Inl e)
  then show ?thesis
    using assms by (simp add: thrown_def)
next
  case (Inr r)
  obtain k j where r: "r = Response k j"
    by (cases r) simp
  show ?thesis
  proof (cases j)
    case (Inl e)
    then show ?thesis
      using assms Inr r by (simp add: thrown_def)
  next
    case (Inr b)
    then show ?thesis
      using \<open>fetched = Inr r\<close> r by simp
  qed
qed

text \<open>The loader, not cancelled, on the body \<^verbatim>\<open>null\<close>.\<close>

lemma loadStatus_null:
  "loadStatus False (Inr (Response k (Inr None))) =
     (loadStatus_sync
        @ [SetStatus None,
           SetError (Some (message_of null_read_error ''Failed to check setup status'')),
           SetLoadingStatus False], Normal)"
  by (simp add: loader_defs)

lemma after_load_null:
  "after_load False (Inr (Response k (Inr None))) s =
     s\<lparr>loadingStatus := False,
       error := Some (message_of null_read_error ''Failed to check setup status''),
       status := None\<rparr>"
  by (simp add: after_load_def loadStatus_null run_def loadStatus_sync_def)

text \<open>On a mounted component an error is recorded exactly for a throw or a null body.\<close>

lemma error_after_load:
  "(error (after_load False fetched s) \<noteq> None) = (thrown fetched \<noteq> None \<or> null_body fetched)"
proof (cases "thrown fetched")
  case None
  then obtain k b where f: "fetched = Inr (Response k (Inr b))"
    using not_thrown_parsed by blast
  show ?thesis
  proof (cases b)
    case None
    then show ?thesis
      using f by (simp add: after_load_null null_body_def thrown_def)
  next
    case (Some d)
    then show ?thesis
      using f by (simp add: after_load_parsed null_body_def thrown_def)
  qed
next
  case (Some e)
  then show ?thesis
    by (simp add: after_load_thrown)
qed

text \<open>From no status, a load stores one exactly when it delivers an object while mounted.\<close>

lemma status_after_load:
  assumes "status s = None"
  shows "(status (after_load cancelled fetched s) = None) =
           (cancelled \<or> thrown fetched \<noteq> None \<or> null_body fetched)"
proof (cases cancelled)
  case True
  then show ?thesis
    using assms by (simp add: after_load_cancelled)
next
  case False
  show ?thesis
  proof (cases "thrown fetched")
    case None
    then obtain k b where f: "fetched = Inr (Response k (Inr b))"
      using not_thrown_parsed by blast
    show ?thesis
    proof (cases b)
      case None
      then show ?thesis
        using f False by (simp add: after_load_null null_body_def)
    next
      case (Some d)
      then show ?thesis
        using f False by (simp add: after_load_parsed null_body_def thrown_def)
    qed
  next
    case (Some e)
    then show ?thesis
      using assms False by (simp add: after_load_thrown)
  qed
qed

text \<open>The submit handler without a status, and after a response that is not ok.\<close>

lemma onSubmit_no_status:
  "status s = None \<Longrightarrow>
     onSubmit s posted =
       ([PreventDefault, ToastError ''Registration is not available right now''], Return)"
  by (simp add: onSubmit_def canRegisterInitialAdmin_def)

lemma after_submit_rejected:
  assumes "canRegisterInitialAdmin (status s)" and "8 \<le> length (password (formData s))"
  shows "after_submit s (Inr (Response False body)) =
           s\<lparr>submitting := False,
             error := Some (or_default
                       (reply_error (case body of Inl e \<Rightarrow> empty_reply | Inr d \<Rightarrow> d))
                       ''Failed to create account'')\<rparr>"
  using assms by (simp add: after_submit_def submit_defs run_def)

lemma render_form:
  assumes "canRegisterInitialAdmin (status s)" and "\<not> loadingStatus s"
  shows "render (s\<lparr>submitting := b, error := m\<rparr>) = form_view (s\<lparr>submitting := b, error := m\<rparr>)"
  using assms canRegister_status [of s] by (auto simp add: render_def)

subsection \<open>The permission\<close>

text \<open>
  C1. For every SetupStatus record the permission \<open>canRegisterInitialAdmin\<close> is true
  exactly when \<open>dbConfigured\<close>, \<open>connectionValid\<close> and \<open>tablesCreated\<close> are true and
  \<open>adminExists\<close> is false; an absent \<open>dbConfigured\<close> or \<open>connectionValid\<close> counts as
  false, and so does a status that is not loaded.
\<close>

theorem canRegister_truth_table:
  "canRegisterInitialAdmin (Some d) =
     (dbConfigured d = Some True \<and> connectionValid d = Some True \<and> tablesCreated d
      \<and> \<not> adminExists d)
   \<and> \<not> canRegisterInitialAdmin (Some (d\<lparr>dbConfigured := None\<rparr>))
   \<and> \<not> canRegisterInitialAdmin (Some (d\<lparr>connectionValid := None\<rparr>))
   \<and> \<not> canRegisterInitialAdmin None"
  by (simp add: canRegisterInitialAdmin_def truthy_iff)

text \<open>C1 at the status that permits registration, and with one field dropped.\<close>

theorem canRegister_truth_table_witness:
  "canRegisterInitialAdmin (Some ready_status)
   \<and> \<not> canRegisterInitialAdmin (Some (ready_status\<lparr>dbConfigured := None\<rparr>))
   \<and> \<not> canRegisterInitialAdmin (Some (ready_status\<lparr>connectionValid := None\<rparr>))"
  using canRegister_truth_table [of ready_status]
  by (simp add: ready_status_def)

subsection \<open>The status loader\<close>

text \<open>
  C3. When the status fetch succeeds, the component is still mounted, and the status
  has \<open>dbConfigured\<close> falsy or \<open>connectionValid\<close> falsy, the loader stores the status,
  ends the loading phase and returns without any redirect, whatever the other fields and
  the HTTP status are; the screen then shows the "Cannot Register Yet" card.
\<close>

theorem loadStatus_database_not_ready:
  assumes "\<not> truthy (dbConfigured d) \<or> \<not> truthy (connectionValid d)"
  shows "loadStatus False (Inr (Response k (Inr (Some d)))) =
           (loadStatus_sync @ [SetStatus (Some d), SetLoadingStatus False], Return)
         \<and> \<not> list_ex is_redirect (fst (loadStatus False (Inr (Response k (Inr (Some d))))))
         \<and> is_cannot_register (render (after_load False (Inr (Response k (Inr (Some d)))) s))"
proof -
  have t: "loadStatus False (Inr (Response k (Inr (Some d)))) =
             (loadStatus_sync @ [SetStatus (Some d), SetLoadingStatus False], Return)"
    using assms by (auto simp add: loader_defs)
  have v: "is_cannot_register (render (s\<lparr>loadingStatus := False, error := None, status := Some d\<rparr>))"
    using assms by (auto simp add: render_def)
  show ?thesis
    by (simp add: t after_load_parsed v) (simp add: loadStatus_sync_def)
qed

text \<open>C3 at the status \<^verbatim>\<open>{dbConfigured: false}\<close> with every other field favourable.\<close>

theorem loadStatus_database_not_ready_witness:
  "loadStatus False (Inr (Response True (Inr (Some (ready_status\<lparr>dbConfigured := Some False\<rparr>))))) =
     (loadStatus_sync
        @ [SetStatus (Some (ready_status\<lparr>dbConfigured := Some False\<rparr>)), SetLoadingStatus False],
      Return)
   \<and> is_cannot_register
       (render (after_load False
          (Inr (Response True (Inr (Some (ready_status\<lparr>dbConfigured := Some False\<rparr>))))) initial_state))"
proof -
  have a: "\<not> truthy (dbConfigured (ready_status\<lparr>dbConfigured := Some False\<rparr>))
           \<or> \<not> truthy (connectionValid (ready_status\<lparr>dbConfigured := Some False\<rparr>))"
    by simp
  show ?thesis
    using loadStatus_database_not_ready [OF a, of True initial_state] by simp
qed

text \<open>
  C4. When the status fetch succeeds, the component is still mounted, and
  \<open>dbConfigured\<close> and \<open>connectionValid\<close> are both true: the loader redirects to
  \<^verbatim>\<open>/setup\<close> if \<open>tablesCreated\<close> is false, otherwise to \<^verbatim>\<open>/login\<close> if \<open>adminExists\<close> is
  true, otherwise nowhere. The status is stored and the registration form is what the
  screen shows; its inputs are enabled exactly in the last case (and while no submission
  is under way).
\<close>

theorem loadStatus_database_ready:
  assumes "dbConfigured d = Some True" and "connectionValid d = Some True"
  shows "filter is_redirect (fst (loadStatus False (Inr (Response k (Inr (Some d)))))) =
           (if \<not> tablesCreated d then [RouterReplace ''/setup'']
            else if adminExists d then [RouterReplace ''/login'']
            else [])
         \<and> status (after_load False (Inr (Response k (Inr (Some d)))) s) = Some d
         \<and> is_form (render (after_load False (Inr (Response k (Inr (Some d)))) s))
         \<and> form_enabled (render (after_load False (Inr (Response k (Inr (Some d)))) s)) =
             (tablesCreated d \<and> \<not> adminExists d \<and> \<not> submitting s)"
proof -
  have f: "filter is_redirect (fst (loadStatus False (Inr (Response k (Inr (Some d)))))) =
           (if \<not> tablesCreated d then [RouterReplace ''/setup'']
            else if adminExists d then [RouterReplace ''/login'']
            else [])"
    using assms by (simp add: loader_defs)
  have v: "render (s\<lparr>loadingStatus := False, error := None, status := Some d\<rparr>) =
             form_view (s\<lparr>loadingStatus := False, error := None, status := Some d\<rparr>)"
    using assms by (simp add: render_def)
  show ?thesis
    using assms by (auto simp add: f after_load_parsed v form_view_def canRegister_Some)
qed

text \<open>C4 on its three branches: no tables, an existing admin, and the eligible status.\<close>

theorem loadStatus_database_ready_witness:
  "filter is_redirect
     (fst (loadStatus False (Inr (Response True (Inr (Some (ready_status\<lparr>tablesCreated := False\<rparr>))))))) =
     [RouterReplace ''/setup'']
   \<and> filter is_redirect
       (fst (loadStatus False (Inr (Response True (Inr (Some (ready_status\<lparr>adminExists := True\<rparr>))))))) =
       [RouterReplace ''/login'']
   \<and> filter is_redirect (fst (loadStatus False (Inr (Response True (Inr (Some ready_status)))))) = []
   \<and> is_form (render (after_load False (Inr (Response True (Inr (Some ready_status)))) initial_state))
   \<and> form_enabled (render (after_load False (Inr (Response True (Inr (Some ready_status)))) initial_state))"
proof -
  have a: "dbConfigured ready_status = Some True" and b: "connectionValid ready_status = Some True"
    by (simp_all add: ready_status_def)
  have a1: "dbConfigured (ready_status\<lparr>tablesCreated := False\<rparr>) = Some True"
    and b1: "connectionValid (ready_status\<lparr>tablesCreated := False\<rparr>) = Some True"
    by (simp_all add: ready_status_def)
  have a2: "dbConfigured (ready_status\<lparr>adminExists := True\<rparr>) = Some True"
    and b2: "connectionValid (ready_status\<lparr>adminExists := True\<rparr>) = Some True"
    by (simp_all add: ready_status_def)
  have c: "tablesCreated ready_status" "\<not> adminExists ready_status"
    "\<not> submitting initial_state"
    by (simp_all add: ready_status_def initial_state_def)
  show ?thesis
    using loadStatus_database_ready [OF a b, of True initial_state]
      loadStatus_database_ready [OF a1 b1, of True initial_state]
      loadStatus_database_ready [OF a2 b2, of True initial_state] c
    by simp
qed



text \<open>
  C8, as the code has it. The loader never looks at the HTTP status: two responses
  with the same body outcome are handled alike, so a body that is a JSON object under a
  non-2xx status is stored as the status and no error is recorded. On a mounted
  component the loader records an error exactly when the fetch or the parsing threw, or
  when the body is the JSON value \<^verbatim>\<open>null\<close>, on which the read of line 55 throws.
\<close>

theorem loadStatus_ignores_http_status:
  "loadStatus cancelled (Inr (Response k body)) = loadStatus cancelled (Inr (Response k' body))
   \<and> status (after_load False (Inr (Response False (Inr (Some d)))) s) = Some d
   \<and> error (after_load False (Inr (Response False (Inr (Some d)))) s) = None
   \<and> (error (after_load False fetched s) \<noteq> None) =
       (thrown fetched \<noteq> None \<or> null_body fetched)"
proof -
  have a: "loadStatus cancelled (Inr (Response k body)) =
             loadStatus cancelled (Inr (Response k' body))"
    by (simp add: loadStatus_def loadStatus_try_def)
  show ?thesis
    using a error_after_load [of fetched s] by (simp add: after_load_parsed)
qed

text \<open>
  C8 on a fresh mount, for the eligible status and for \<^verbatim>\<open>null\<close>, each delivered under a
  non-2xx status.
\<close>

theorem loadStatus_ignores_http_status_witness:
  "loadStatus False (Inr (Response False (Inr (Some ready_status)))) =
     loadStatus False (Inr (Response True (Inr (Some ready_status))))
   \<and> status (after_load False (Inr (Response False (Inr (Some ready_status)))) initial_state) =
       Some ready_status
   \<and> error (after_load False (Inr (Response False (Inr (Some ready_status)))) initial_state) = None
   \<and> error (after_load False (Inr (Response False (Inr None))) initial_state) \<noteq> None"
proof -
  have n: "null_body (Inr (Response False (Inr None)) :: js_exn + SetupStatus option response)"
    by (simp add: null_body_def)
  show ?thesis
    using loadStatus_ignores_http_status
            [of False False "Inr (Some ready_status)" True ready_status initial_state
                "Inr (Response False (Inr (Some ready_status)))"]
          loadStatus_ignores_http_status
            [of False False "Inr (Some ready_status)" True ready_status initial_state
                "Inr (Response False (Inr None))"] n
    by simp
qed

text \<open>
  C8 as stated says that the loader treats the GET as failed only when the fetch or
  the parsing throws. For the body \<^verbatim>\<open>null\<close>, which is valid JSON, neither throws, yet the
  loader stores \<^verbatim>\<open>null\<close> as the status, records the message of the \<^verbatim>\<open>TypeError\<close> of
  line 55 as the error, and the body is not processed as a status.
\<close>

theorem loadStatus_null_body_counterexample:
  "thrown (Inr (Response False (Inr None)) :: js_exn + SetupStatus option response) = None
   \<and> loadStatus False (Inr (Response False (Inr None))) =
       (loadStatus_sync
          @ [SetStatus None,
             SetError (Some ''Cannot read properties of null (reading 'dbConfigured')''),
             SetLoadingStatus False], Normal)
   \<and> error (after_load False (Inr (Response False (Inr None))) initial_state) \<noteq> None
   \<and> status (after_load False (Inr (Response False (Inr None))) initial_state) = None"
  by (simp add: thrown_def after_load_def loader_defs run_def null_read_error_def
      initial_state_def)

text \<open>
  C9. When the cleanup of the mount effect has set the flag before the awaits of the
  loader settle, the loader does nothing after them, whatever they produce: the only
  actions it ever performed are the three issued before the first await, so there is no
  later state update and no redirect. In no case does the loader end by a throw: its
  promise never rejects.
\<close>

theorem loadStatus_cancelled:
  "loadStatus True fetched = (loadStatus_sync, Return)
   \<and> loadStatus_after True fetched = []
   \<and> run (loadStatus_after True fetched) s = s
   \<and> snd (loadStatus cancelled fetched) \<in> {Normal, Return}"
proof -
  have a: "loadStatus True fetched = (loadStatus_sync, Return)"
    by (simp add: loader_defs split: sum.splits)
  have b: "snd (loadStatus cancelled fetched) \<in> {Normal, Return}"
    by (simp add: loader_defs split: sum.splits option.splits)
  show ?thesis
    using b by (simp add: a loadStatus_after_def run_def)
qed

text \<open>C9 for a fetch that delivers the eligible status and for one that throws.\<close>

theorem loadStatus_cancelled_witness:
  "loadStatus True (Inr (Response True (Inr (Some ready_status)))) = (loadStatus_sync, Return)
   \<and> loadStatus True (Inl OtherThrown) = (loadStatus_sync, Return)
   \<and> loadStatus_after True (Inr (Response True (Inr (Some ready_status)))) = []"
  using loadStatus_cancelled [of "Inr (Response True (Inr (Some ready_status)))"]
        loadStatus_cancelled [of "Inl OtherThrown"]
  by simp

subsection \<open>The submission handler\<close>

text \<open>
  C2, as the code has it. When registration is permitted, the password has at least
  eight characters and the POST returns a 2xx response, the handler fires the success
  notice, calls \<^verbatim>\<open>router.push('/admin')\<close>, and then its \<^verbatim>\<open>finally\<close> block resets
  \<open>submitting\<close> to false: the reset is the last action of the handler, after the
  navigation call and not before it, and the handler ends with \<open>submitting\<close> false.
\<close>

theorem onSubmit_success_trace:
  assumes "canRegisterInitialAdmin (status s)" and "8 \<le> length (password (formData s))"
  shows "onSubmit s (Inr (Response True body)) =
           ([PreventDefault, SetSubmitting True, SetError None, register_request (formData s),
             ToastSuccess ''Admin account created'', RouterPush ''/admin'',
             SetSubmitting False], Return)
         \<and> submitting (after_submit s (Inr (Response True body))) = False"
  using assms by (simp add: submit_defs run_def after_submit_def)

text \<open>C2 at the ready state, for a 2xx response with an empty object as its body.\<close>

theorem onSubmit_success_trace_witness:
  "onSubmit ready_state (Inr (Response True (Inr empty_reply))) =
     ([PreventDefault, SetSubmitting True, SetError None, register_request (formData ready_state),
       ToastSuccess ''Admin account created'', RouterPush ''/admin'',
       SetSubmitting False], Return)
   \<and> submitting (after_submit ready_state (Inr (Response True (Inr empty_reply)))) = False"
  using onSubmit_success_trace [OF ready_state_can_register ready_state_password]
  by simp

text \<open>
  C2 as stated says that on a 2xx response the handler does not reset \<open>submitting\<close>.
  At the ready state it does: \<^verbatim>\<open>setSubmitting(false)\<close> is among its actions, and
  \<open>submitting\<close>, set to true before the request, is false when the handler is done.
\<close>

theorem onSubmit_success_counterexample:
  "SetSubmitting False \<in> set (fst (onSubmit ready_state (Inr (Response True (Inr empty_reply)))))
   \<and> submitting (after_submit ready_state (Inr (Response True (Inr empty_reply)))) = False"
  by (simp add: submit_defs run_def after_submit_def example_defs canRegisterInitialAdmin_def)

text \<open>
  C5. When registration is permitted but the password has fewer than eight
  characters, the handler only prevents the default submission and shows the toast
  "Password must be at least 8 characters": it makes no request, calls no state setter,
  and leaves the component state as it was.
\<close>

theorem onSubmit_short_password:
  assumes "canRegisterInitialAdmin (status s)" and "length (password (formData s)) < 8"
  shows "onSubmit s fetched =
           ([PreventDefault, ToastError ''Password must be at least 8 characters''], Return)
         \<and> \<not> list_ex is_fetch (fst (onSubmit s fetched))
         \<and> \<not> list_ex is_setter (fst (onSubmit s fetched))
         \<and> after_submit s fetched = s"
  using assms by (simp add: onSubmit_def after_submit_def run_def)

text \<open>C5 at the ready state with a password of seven characters.\<close>

theorem onSubmit_short_password_witness:
  "length (password (formData short_password_state)) = 7
   \<and> onSubmit short_password_state (Inr (Response True (Inr empty_reply))) =
       ([PreventDefault, ToastError ''Password must be at least 8 characters''], Return)
   \<and> after_submit short_password_state (Inr (Response True (Inr empty_reply))) =
       short_password_state"
proof -
  have a: "canRegisterInitialAdmin (status short_password_state)"
    by (simp add: example_defs canRegisterInitialAdmin_def)
  have b: "length (password (formData short_password_state)) < 8"
    by (simp add: example_defs)
  have c: "length (password (formData short_password_state)) = 7"
    by (simp add: example_defs)
  show ?thesis
    using onSubmit_short_password [OF a b, of "Inr (Response True (Inr empty_reply))"] c
    by simp
qed

text \<open>
  C6, as the code has it. When registration is permitted, the password has at least
  eight characters, the form is on screen, and the POST returns a non-2xx response:
  a body with a non-empty \<^verbatim>\<open>error\<close> string makes the inline alert show exactly that
  string; a body whose \<^verbatim>\<open>error\<close> is the empty string, a body without the field and a
  body that does not parse make it show "Failed to create account"; in every case
  \<open>submitting\<close> is false again.
\<close>

theorem onSubmit_rejected_alert:
  assumes "canRegisterInitialAdmin (status s)" and "8 \<le> length (password (formData s))"
    and "\<not> loadingStatus s"
  shows "shown_alert (render (after_submit s
            (Inr (Response False (Inr \<lparr>reply_error = Some (c # m)\<rparr>))))) = Some (c # m)
         \<and> shown_alert (render (after_submit s
            (Inr (Response False (Inr \<lparr>reply_error = Some []\<rparr>))))) =
             Some ''Failed to create account''
         \<and> shown_alert (render (after_submit s
            (Inr (Response False (Inr \<lparr>reply_error = None\<rparr>))))) =
             Some ''Failed to create account''
         \<and> shown_alert (render (after_submit s (Inr (Response False (Inl e))))) =
             Some ''Failed to create account''
         \<and> submitting (after_submit s (Inr (Response False body))) = False"
  using assms
  by (simp add: after_submit_rejected render_form form_view_def inline_alert_def empty_reply_def)

text \<open>C6 at the ready state, for a 400 response with the body \<^verbatim>\<open>{error: "Email taken"}\<close>.\<close>

theorem onSubmit_rejected_alert_witness:
  "shown_alert (render (after_submit ready_state
      (Inr (Response False (Inr \<lparr>reply_error = Some ''Email taken''\<rparr>))))) = Some ''Email taken''
   \<and> submitting (after_submit ready_state
      (Inr (Response False (Inr \<lparr>reply_error = Some ''Email taken''\<rparr>)))) = False"
proof -
  have c: "\<not> loadingStatus ready_state"
    by (simp add: example_defs)
  show ?thesis
    using onSubmit_rejected_alert
            [OF ready_state_can_register ready_state_password c,
             of "CHR ''E''" "''mail taken''" _ "Inr \<lparr>reply_error = Some ''Email taken''\<rparr>"]
    by simp
qed

text \<open>
  C6 as stated says that the alert shows exactly the \<^verbatim>\<open>error\<close> string of the body
  whenever the body has that field. For the body \<^verbatim>\<open>{error: ""}\<close> the alert does not
  show the empty string: \<^verbatim>\<open>data?.error || ...\<close> falls back to the default message.
\<close>

theorem onSubmit_empty_error_counterexample:
  "shown_alert (render (after_submit ready_state
      (Inr (Response False (Inr \<lparr>reply_error = Some []\<rparr>))))) \<noteq> Some []
   \<and> shown_alert (render (after_submit ready_state
      (Inr (Response False (Inr \<lparr>reply_error = Some []\<rparr>))))) = Some ''Failed to create account''"
  by (simp add: after_submit_def submit_defs run_def example_defs canRegisterInitialAdmin_def
      render_def form_view_def inline_alert_def)

subsection \<open>No registration without a loaded status\<close>

text \<open>
  C10. While the stored status is null the permission is false; the screen shows
  the spinner or the form with its inputs and its submit button disabled; a submit only
  shows the notice "Registration is not available right now" and makes no request.
  The status stays null through a submit, and through a load exactly when the load was
  cancelled, its fetch or parsing threw, or its body was \<^verbatim>\<open>null\<close>: only a status that was
  loaded lifts the block.
\<close>

theorem no_status_no_registration:
  assumes "status s = None"
  shows "\<not> canRegisterInitialAdmin (status s)
         \<and> render s =
             (if loadingStatus s then CheckingStatus
              else CreateAdminForm (inline_alert (error s)) (formData s) True
                     (if submitting s then ''Creating...'' else ''Create Admin''))
         \<and> \<not> form_enabled (render s)
         \<and> onSubmit s posted =
             ([PreventDefault, ToastError ''Registration is not available right now''], Return)
         \<and> \<not> list_ex is_fetch (fst (onSubmit s posted))
         \<and> status (after_submit s posted) = None
         \<and> (status (after_load cancelled fetched s) = None) =
             (cancelled \<or> thrown fetched \<noteq> None \<or> null_body fetched)"
proof -
  have c: "\<not> canRegisterInitialAdmin (status s)"
    using assms by (simp add: canRegisterInitialAdmin_def)
  have v: "render s =
             (if loadingStatus s then CheckingStatus
              else CreateAdminForm (inline_alert (error s)) (formData s) True
                     (if submitting s then ''Creating...'' else ''Create Admin''))"
    using assms c by (simp add: render_def form_view_def)
  show ?thesis
    using assms c status_after_load [OF assms, of cancelled fetched]
    by (simp add: v onSubmit_no_status after_submit_def run_def)
qed

text \<open>C10 at the state of a fresh mount, before and after a fetch that throws.\<close>

theorem no_status_no_registration_witness:
  "status initial_state = None
   \<and> \<not> canRegisterInitialAdmin (status initial_state)
   \<and> render initial_state = CheckingStatus
   \<and> onSubmit initial_state (Inr (Response True (Inr empty_reply))) =
       ([PreventDefault, ToastError ''Registration is not available right now''], Return)
   \<and> status (after_load False (Inl OtherThrown) initial_state) = None"
proof -
  have a: "status initial_state = None"
    by (simp add: initial_state_def)
  have b: "thrown (Inl OtherThrown :: js_exn + SetupStatus option response) \<noteq> None"
    by (simp add: thrown_def)
  have c: "loadingStatus initial_state"
    by (simp add: initial_state_def)
  show ?thesis
    using no_status_no_registration
            [OF a, of "Inr (Response True (Inr empty_reply))" False "Inl OtherThrown"] a b c
    by simp
qed

end
